theory Spec2Isabelle
  imports Complex_Main "HOL-Library.Sublist"
begin

section \<open>Nano Banana: request orchestration and resilience layer\<close>

text \<open>
  A shallow embedding of \<^verbatim>\<open>src/plugins/nanobanana/main.py\<close>: the prompt sanitizer, the
  error classifier, the backoff policy, the retry wrapper, the single-item generation
  call and the batch orchestrator \<^verbatim>\<open>generate_image\<close>.

  Conventions of the embedding.
  \<^item> A Python \<^verbatim>\<open>str\<close> is a \<^typ>\<open>string\<close>; a character is read as the code point of the
    same number (0 to 255).
  \<^item> A Python \<^verbatim>\<open>int\<close> is an \<^typ>\<open>int\<close>; positions produced by \<^verbatim>\<open>enumerate\<close> are
    \<^typ>\<open>nat\<close>. A Python \<^verbatim>\<open>float\<close> is a \<^typ>\<open>real\<close>.
  \<^item> A call either returns a value, raises an exception (kept as the text \<^verbatim>\<open>str(e)\<close>) or
    leaves the process through \<^verbatim>\<open>sys.exit\<close>; all three are values of \<open>outcome\<close>.
  \<^item> Everything outside the program (environment variables, the file system, the
    remote service, base64 decoding) is a parameter, the record \<open>platform\<close>. Each
    interaction with it is appended to a history of events, which is threaded through
    the model as explicit state.
  \<^item> Console output (\<^verbatim>\<open>print\<close>) is not modelled; \<^verbatim>\<open>validate_style_content\<close> only feeds
    printed warnings and is left out with it.
\<close>

subsection \<open>Strings\<close>

definition ascii_uppercase :: string where
  "ascii_uppercase = ''ABCDEFGHIJKLMNOPQRSTUVWXYZ''"

definition ascii_lowercase :: string where
  "ascii_lowercase = ''abcdefghijklmnopqrstuvwxyz''"

definition latin1_uppercase :: string where
  "latin1_uppercase =
     [CHR 0xC0, CHR 0xC1, CHR 0xC2, CHR 0xC3, CHR 0xC4, CHR 0xC5, CHR 0xC6, CHR 0xC7,
      CHR 0xC8, CHR 0xC9, CHR 0xCA, CHR 0xCB, CHR 0xCC, CHR 0xCD, CHR 0xCE, CHR 0xCF,
      CHR 0xD0, CHR 0xD1, CHR 0xD2, CHR 0xD3, CHR 0xD4, CHR 0xD5, CHR 0xD6,
      CHR 0xD8, CHR 0xD9, CHR 0xDA, CHR 0xDB, CHR 0xDC, CHR 0xDD, CHR 0xDE]"

definition latin1_lowercase :: string where
  "latin1_lowercase =
     [CHR 0xE0, CHR 0xE1, CHR 0xE2, CHR 0xE3, CHR 0xE4, CHR 0xE5, CHR 0xE6, CHR 0xE7,
      CHR 0xE8, CHR 0xE9, CHR 0xEA, CHR 0xEB, CHR 0xEC, CHR 0xED, CHR 0xEE, CHR 0xEF,
      CHR 0xF0, CHR 0xF1, CHR 0xF2, CHR 0xF3, CHR 0xF4, CHR 0xF5, CHR 0xF6,
      CHR 0xF8, CHR 0xF9, CHR 0xFA, CHR 0xFB, CHR 0xFC, CHR 0xFD, CHR 0xFE]"

text \<open>\<^verbatim>\<open>str.lower()\<close>, character by character, on the code points 0 to 255.\<close>

definition lower_char :: "char \<Rightarrow> char" where
  "lower_char c =
     (case map_of (zip (ascii_uppercase @ latin1_uppercase)
                       (ascii_lowercase @ latin1_lowercase)) c of
        Some l \<Rightarrow> l
      | None \<Rightarrow> c)"

definition lower :: "string \<Rightarrow> string" where
  "lower s = map lower_char s"

text \<open>\<^verbatim>\<open>s.startswith(pat)\<close> and \<^verbatim>\<open>pat in s\<close>.\<close>

fun startswith :: "string \<Rightarrow> string \<Rightarrow> bool" where
  "startswith s [] = True"
| "startswith [] (p # ps) = False"
| "startswith (c # cs) (p # ps) = (c = p \<and> startswith cs ps)"

fun str_in :: "string \<Rightarrow> string \<Rightarrow> bool" where
  "str_in pat [] = (pat = [])"
| "str_in pat (c # cs) = (startswith (c # cs) pat \<or> str_in pat cs)"

text \<open>\<^verbatim>\<open>str.isspace()\<close> for one character, and \<^verbatim>\<open>str.strip()\<close>.\<close>

definition whitespace :: string where
  "whitespace =
     [CHR 0x09, CHR 0x0A, CHR 0x0B, CHR 0x0C, CHR 0x0D, CHR 0x1C, CHR 0x1D, CHR 0x1E,
      CHR 0x1F, CHR 0x20, CHR 0x85, CHR 0xA0]"

definition isspace :: "char \<Rightarrow> bool" where
  "isspace c = (c \<in> set whitespace)"

definition strip :: "string \<Rightarrow> string" where
  "strip s = rev (dropWhile isspace (rev (dropWhile isspace s)))"

text \<open>\<^verbatim>\<open>str(n)\<close> for a natural number and for an integer.\<close>

fun str_nat :: "nat \<Rightarrow> string" where
  "str_nat n =
     (if n < 10 then [''0123456789'' ! n]
      else str_nat (n div 10) @ [''0123456789'' ! (n mod 10)])"

declare str_nat.simps [simp del]

definition str_int :: "int \<Rightarrow> string" where
  "str_int i = (if i < 0 then CHR ''-'' # str_nat (nat (- i)) else str_nat (nat i))"

text \<open>The format specification \<^verbatim>\<open>:03d\<close> on a non-negative number: at least three digits,
  padded with zeros on the left.\<close>

definition format_03d :: "nat \<Rightarrow> string" where
  "format_03d n = replicate (3 - length (str_nat n)) CHR ''0'' @ str_nat n"

text \<open>The number that a string of decimal digits denotes.\<close>

definition digit_value :: "char \<Rightarrow> nat" where
  "digit_value c = length (takeWhile (\<lambda>d. d \<noteq> c) ''0123456789'')"

definition decimal_value :: "string \<Rightarrow> nat" where
  "decimal_value s = foldl (\<lambda>v c. 10 * v + digit_value c) 0 s"

subsection \<open>Error codes and result dictionaries\<close>

datatype ErrorCode =
    SUCCESS
  | API_KEY_MISSING
  | FILE_NOT_FOUND
  | INVALID_INPUT
  | RATE_LIMITED
  | NETWORK_ERROR
  | API_ERROR
  | CONTENT_POLICY
  | TIMEOUT
  | PARTIAL_FAILURE

text \<open>
  The dictionaries the code builds. A key that a dictionary may lack is an optional
  field: \<open>None\<close> is the absent key. The keys \<^verbatim>\<open>success\<close> and \<^verbatim>\<open>error_code\<close> are present in
  every dictionary the code builds. \<open>item_result\<close> is an element of \<^verbatim>\<open>results\<close>;
  \<open>batch_result\<close> is what \<^verbatim>\<open>generate_image\<close> returns.
\<close>

record result_dict =
  success :: bool
  error_code :: ErrorCode
  error :: "string option"
  retries_used :: "int option"

record item_result = result_dict +
  prompt :: "string option"
  "output" :: "string option"

record batch_result = result_dict +
  results :: "item_result list"
  total :: int
  succeeded :: int
  failed :: int

text \<open>How a call ends: \<^verbatim>\<open>return v\<close>, an exception \<open>e\<close> with \<^verbatim>\<open>str(e)\<close>, or \<^verbatim>\<open>sys.exit(code)\<close>
  (\<^verbatim>\<open>SystemExit\<close> is not an \<^verbatim>\<open>Exception\<close>, so \<^verbatim>\<open>except Exception\<close> lets it through).\<close>

datatype 'a outcome = Returns 'a | Raises string | Exits int

subsection \<open>Input validation\<close>

text \<open>\<^verbatim>\<open>SHELL_DANGEROUS_CHARS = re.compile(r'[;&|`$(){}[\]<>\\!]')\<close>: the members of the
  character class. \<open>CHR 0x60\<close> is the backtick and \<open>CHR 0x5C\<close> the backslash.\<close>

definition SHELL_DANGEROUS_CHARS :: string where
  "SHELL_DANGEROUS_CHARS =
     [CHR '';'', CHR ''&'', CHR ''|'', CHR 0x60, CHR ''$'', CHR ''('', CHR '')'',
      CHR ''{'', CHR ''}'', CHR ''['', CHR '']'', CHR ''<'', CHR ''>'', CHR 0x5C, CHR ''!'']"

definition search_dangerous :: "string \<Rightarrow> bool" where
  "search_dangerous s = (\<exists>c \<in> set s. c \<in> set SHELL_DANGEROUS_CHARS)"

text \<open>\<^verbatim>\<open>shlex.quote\<close> of the standard library: the empty string becomes two quotes, a
  string of safe characters (\<^verbatim>\<open>[A-Za-z0-9_@%+=:,./-]\<close>) is returned as it is, any other is
  put between single quotes with each single quote (\<open>CHR 0x27\<close>) replaced by
  \<^verbatim>\<open>'"'"'\<close>.\<close>

definition shlex_safe_chars :: string where
  "shlex_safe_chars =
     ascii_lowercase @ ascii_uppercase @ ''0123456789'' @ ''_@%+=:,./-''"

definition replace_quotes :: "string \<Rightarrow> string" where
  "replace_quotes s =
     concat (map (\<lambda>c. if c = CHR 0x27 then [CHR 0x27, CHR 0x22, CHR 0x27, CHR 0x22, CHR 0x27]
                       else [c]) s)"

definition shlex_quote :: "string \<Rightarrow> string" where
  "shlex_quote s =
     (if s = [] then [CHR 0x27, CHR 0x27]
      else if \<forall>c \<in> set s. c \<in> set shlex_safe_chars then s
      else [CHR 0x27] @ replace_quotes s @ [CHR 0x27])"

definition sanitize_prompt :: "string \<Rightarrow> string outcome" where
  "sanitize_prompt p =
     (if p = [] \<or> strip p = [] then Raises ''Prompt cannot be empty''
      else if search_dangerous p then Returns (shlex_quote p)
      else Returns p)"

subsection \<open>Error classifier and backoff policy\<close>

definition DEFAULT_MAX_RETRIES :: int where
  "DEFAULT_MAX_RETRIES = 3"

definition RETRYABLE_ERRORS :: "string list" where
  "RETRYABLE_ERRORS =
     [''rate limit'', ''429'', ''503'', ''502'', ''connection'', ''timeout'',
      ''temporarily unavailable'']"

definition is_retryable_error :: "string \<Rightarrow> bool" where
  "is_retryable_error error_str =
     (let error_lower = lower error_str
      in \<exists>pattern \<in> set RETRYABLE_ERRORS. str_in pattern error_lower)"

text \<open>\<^verbatim>\<open>base_delay * (2 ** attempt)\<close>, capped; \<open>powi\<close> is the power with an integer
  exponent, as \<^verbatim>\<open>**\<close> is.\<close>

definition calculate_backoff :: "int \<Rightarrow> real \<Rightarrow> real \<Rightarrow> real" where
  "calculate_backoff attempt base_delay max_delay =
     (let delay = base_delay * (2 powi attempt) in min delay max_delay)"

subsection \<open>Paths\<close>

text \<open>
  \<^verbatim>\<open>pathlib.Path\<close> on a POSIX system: a path is its root (empty, one slash or two) and
  the list of its components. The constructor drops empty components and the
  components that are a single dot, so the text of a path (\<open>path_str\<close>) can differ from
  the text it was built from. The suffix of a path is the part of its last component
  from the last dot on, when that dot is neither the first nor the last character of
  the component; the stem is the rest of the component.
\<close>

record ppath =
  anchor :: string
  tail :: "string list"

fun split_sep :: "string \<Rightarrow> string list" where
  "split_sep [] = [[]]"
| "split_sep (c # cs) =
     (if c = CHR ''/'' then [] # split_sep cs
      else (case split_sep cs of [] \<Rightarrow> [[c]] | w # ws \<Rightarrow> (c # w) # ws))"

fun join_sep :: "string list \<Rightarrow> string" where
  "join_sep [] = []"
| "join_sep [x] = x"
| "join_sep (x # y # ys) = x @ ''/'' @ join_sep (y # ys)"

definition splitroot :: "string \<Rightarrow> string \<times> string" where
  "splitroot p =
     (if take 1 p \<noteq> ''/'' then ([], p)
      else if take 1 (drop 1 p) \<noteq> ''/'' \<or> take 1 (drop 2 p) = ''/'' then (''/'', drop 1 p)
      else (take 2 p, drop 2 p))"

definition Path :: "string \<Rightarrow> ppath" where
  "Path p =
     (case splitroot p of
        (rt, rel) \<Rightarrow>
          \<lparr>anchor = rt, tail = filter (\<lambda>x. x \<noteq> [] \<and> x \<noteq> ''.'') (split_sep rel)\<rparr>)"

definition path_str :: "ppath \<Rightarrow> string" where
  "path_str p =
     (if anchor p \<noteq> [] then anchor p @ join_sep (tail p)
      else if tail p = [] then ''.''
      else join_sep (tail p))"

definition path_name :: "ppath \<Rightarrow> string" where
  "path_name p = (if tail p = [] then [] else last (tail p))"

text \<open>\<^verbatim>\<open>name.rfind('.')\<close>: the position of the last dot, \<open>None\<close> for \<^verbatim>\<open>-1\<close>.\<close>

definition rfind_dot :: "string \<Rightarrow> nat option" where
  "rfind_dot name =
     (let k = length (takeWhile (\<lambda>c. c \<noteq> CHR ''.'') (rev name))
      in if k = length name then None else Some (length name - 1 - k))"

definition path_suffix :: "ppath \<Rightarrow> string" where
  "path_suffix p =
     (let name = path_name p
      in case rfind_dot name of
           None \<Rightarrow> []
         | Some i \<Rightarrow> if 0 < i \<and> i + 1 < length name then drop i name else [])"

definition path_stem :: "ppath \<Rightarrow> string" where
  "path_stem p =
     (let name = path_name p
      in case rfind_dot name of
           None \<Rightarrow> name
         | Some i \<Rightarrow> if 0 < i \<and> i + 1 < length name then take i name else name)"

definition path_parent :: "ppath \<Rightarrow> ppath" where
  "path_parent p = (if tail p = [] then p else p\<lparr>tail := butlast (tail p)\<rparr>)"

text \<open>\<^verbatim>\<open>p / key\<close>: an absolute \<open>key\<close> replaces \<open>p\<close>, any other is appended.\<close>

definition path_join :: "ppath \<Rightarrow> string \<Rightarrow> ppath" where
  "path_join p key =
     (if startswith key ''/'' then Path key
      else p\<lparr>tail := tail p @ tail (Path key)\<rparr>)"

subsection \<open>The platform and the history of effects\<close>

text \<open>\<^verbatim>\<open>types.Part.from_bytes(data=..., mime_type=...)\<close>, the elements of the request's
  \<^verbatim>\<open>contents\<close>, and the request itself: the client (its API key), the model, the
  contents and the aspect ratio of the image configuration.\<close>

record image_part =
  data :: string
  mime_type :: string

datatype content = Text string | Image image_part

record request =
  req_client :: string
  req_model :: string
  req_contents :: "content list"
  req_aspect_ratio :: string

text \<open>A part of a response: \<open>inline_data\<close> is \<open>Some d\<close> when the part has a true
  \<^verbatim>\<open>inline_data\<close> attribute whose \<^verbatim>\<open>data\<close> is \<open>d\<close>. A response is the list of its candidates;
  a candidate is the list \<^verbatim>\<open>content.parts\<close>, or \<open>None\<close> when \<^verbatim>\<open>content\<close> is \<^verbatim>\<open>None\<close>.\<close>

record response_part =
  inline_data :: "string option"

type_synonym response = "response_part list option list"

datatype event =
    GetEnv string
  | PathExists string
  | ReadText string
  | ReadBytes string
  | GenerateContent request
  | Mkdir string
  | WriteBytes string string
  | Sleep real

text \<open>
  The environment the program runs in. Variables and the files that are read are fixed
  for the run; the remote service and the writes may answer differently each time, so
  they see the history so far.
\<close>

record platform =
  getenv :: "string \<Rightarrow> string option"
  path_exists :: "string \<Rightarrow> bool"
  read_text :: "string \<Rightarrow> string outcome"
  read_bytes :: "string \<Rightarrow> string outcome"
  generate_content :: "event list \<Rightarrow> request \<Rightarrow> response outcome"
  b64decode :: "string \<Rightarrow> string outcome"
  mkdir :: "event list \<Rightarrow> string \<Rightarrow> unit outcome"
  write_bytes :: "event list \<Rightarrow> string \<Rightarrow> string \<Rightarrow> unit outcome"

type_synonym 'a effect = "event list \<Rightarrow> 'a outcome \<times> event list"

subsection \<open>Retry with exponential backoff\<close>

text \<open>\<^verbatim>\<open>range(n)\<close>.\<close>

definition py_range :: "int \<Rightarrow> int list" where
  "py_range n = map int [0..<nat n]"

text \<open>
  The body of \<^verbatim>\<open>wrapper\<close>: the loop over the attempts that remain, with the variables
  \<^verbatim>\<open>last_error\<close> (\<open>None\<close> is Python's \<^verbatim>\<open>None\<close>) and \<^verbatim>\<open>retries_used\<close>. The number \<open>calls\<close> is
  not in the source: it counts the invocations of \<open>func\<close>, and is returned beside the
  outcome and the history. After the loop the code evaluates \<^verbatim>\<open>last_error.lower()\<close>, which
  raises \<^verbatim>\<open>AttributeError\<close> when no attempt was made.
\<close>

fun wrapper_loop ::
  "item_result effect \<Rightarrow> int \<Rightarrow> int list \<Rightarrow> string option \<Rightarrow> int \<Rightarrow> nat \<Rightarrow> event list
     \<Rightarrow> item_result outcome \<times> nat \<times> event list" where
  "wrapper_loop func max_retries [] last_error retries calls h =
     (case last_error of
        None \<Rightarrow>
          (Raises ([CHR 0x27] @ ''NoneType'' @ [CHR 0x27] @ '' object has no attribute ''
                   @ [CHR 0x27] @ ''lower'' @ [CHR 0x27]), calls, h)
      | Some e \<Rightarrow>
          (Returns \<lparr>success = False,
                    error_code = (if str_in ''rate'' (lower e) then RATE_LIMITED
                                  else NETWORK_ERROR),
                    error = Some (''Failed after '' @ str_int max_retries @ '' retries: '' @ e),
                    retries_used = Some retries,
                    prompt = None, output = None\<rparr>, calls, h))"
| "wrapper_loop func max_retries (attempt # rest) last_error retries calls h =
     (case func h of
        (Returns result, h1) \<Rightarrow>
          (Returns (result\<lparr>retries_used := Some retries\<rparr>), Suc calls, h1)
      | (Exits code, h1) \<Rightarrow> (Exits code, Suc calls, h1)
      | (Raises e, h1) \<Rightarrow>
          if \<not> is_retryable_error e then
            (Returns \<lparr>success = False, error_code = API_ERROR, error = Some e,
                      retries_used = Some retries, prompt = None, output = None\<rparr>,
             Suc calls, h1)
          else if attempt < max_retries then
            wrapper_loop func max_retries rest (Some e) (retries + 1) (Suc calls)
              (h1 @ [Sleep (calculate_backoff attempt 1.0 60.0)])
          else wrapper_loop func max_retries rest (Some e) retries (Suc calls) h1)"

text \<open>\<^verbatim>\<open>retry_with_backoff(func, max_retries)\<close> applied: the wrapper called once.\<close>

definition retry_with_backoff ::
  "item_result effect \<Rightarrow> int \<Rightarrow> event list \<Rightarrow> item_result outcome \<times> nat \<times> event list" where
  "retry_with_backoff func max_retries h =
     wrapper_loop func max_retries (py_range (max_retries + 1)) None 0 0 h"

subsection \<open>Loading the shared inputs\<close>

definition load_style :: "platform \<Rightarrow> string \<Rightarrow> string effect" where
  "load_style P style_path h =
     (if \<not> path_exists P style_path then (Exits 1, h @ [PathExists style_path])
      else (read_text P style_path, h @ [PathExists style_path, ReadText style_path]))"

definition mime_map :: "(string \<times> string) list" where
  "mime_map =
     [(''.png'', ''image/png''), (''.jpg'', ''image/jpeg''), (''.jpeg'', ''image/jpeg''),
      (''.webp'', ''image/webp''), (''.gif'', ''image/gif'')]"

definition load_image :: "platform \<Rightarrow> string \<Rightarrow> image_part effect" where
  "load_image P image_path h =
     (if \<not> path_exists P image_path then (Exits 1, h @ [PathExists image_path])
      else
        let suffix = lower (path_suffix (Path image_path));
            mime = (case map_of mime_map suffix of Some m \<Rightarrow> m | None \<Rightarrow> ''image/png'');
            h1 = h @ [PathExists image_path, ReadBytes image_path]
        in case read_bytes P image_path of
             Returns bytes \<Rightarrow> (Returns \<lparr>data = bytes, mime_type = mime\<rparr>, h1)
           | Raises e \<Rightarrow> (Raises e, h1)
           | Exits code \<Rightarrow> (Exits code, h1))"

subsection \<open>One item\<close>

text \<open>The loop over \<^verbatim>\<open>response.candidates[0].content.parts\<close>: the first part with inline
  data is decoded and written, and the call returns at once; with no such part the
  failure dictionary after the loop is returned.\<close>

fun extract_image ::
  "platform \<Rightarrow> string \<Rightarrow> ppath \<Rightarrow> response_part list \<Rightarrow> item_result effect" where
  "extract_image P prompt_str output_path [] h =
     (Returns \<lparr>success = False, error_code = API_ERROR,
               error = Some ''No image in response'', retries_used = None,
               prompt = Some prompt_str, output = None\<rparr>, h)"
| "extract_image P prompt_str output_path (part # rest) h =
     (case inline_data part of
        None \<Rightarrow> extract_image P prompt_str output_path rest h
      | Some d \<Rightarrow>
          (case b64decode P d of
             Raises e \<Rightarrow> (Raises e, h)
           | Exits code \<Rightarrow> (Exits code, h)
           | Returns img_data \<Rightarrow>
               let dir = path_str (path_parent output_path);
                   h1 = h @ [Mkdir dir]
               in (case mkdir P h dir of
                     Raises e \<Rightarrow> (Raises e, h1)
                   | Exits code \<Rightarrow> (Exits code, h1)
                   | Returns u \<Rightarrow>
                       let file = path_str output_path;
                           h2 = h1 @ [WriteBytes file img_data]
                       in (case write_bytes P h1 file img_data of
                             Raises e \<Rightarrow> (Raises e, h2)
                           | Exits code \<Rightarrow> (Exits code, h2)
                           | Returns v \<Rightarrow>
                               (Returns \<lparr>success = True, error_code = SUCCESS,
                                         error = None, retries_used = None,
                                         prompt = Some prompt_str,
                                         output = Some (path_str output_path)\<rparr>, h2)))))"

text \<open>Lines 251 to 274: the final prompt, the contents and the request that is sent.\<close>

definition build_request ::
  "string \<Rightarrow> string \<Rightarrow> string \<Rightarrow> image_part option \<Rightarrow> image_part list \<Rightarrow> string \<Rightarrow> string
     \<Rightarrow> request" where
  "build_request client prompt_str style_text edit_part ref_parts aspect_ratio model =
     (let final_prompt =
            (if style_text \<noteq> [] then
               style_text @ [CHR 0x0A, CHR 0x0A] @ ''Generate: '' @ prompt_str
             else prompt_str);
          contents =
            [Text final_prompt]
            @ (case edit_part of Some part \<Rightarrow> [Image part] | None \<Rightarrow> [])
            @ map Image ref_parts
      in \<lparr>req_client = client, req_model = model, req_contents = contents,
          req_aspect_ratio = aspect_ratio\<rparr>)"

definition generate_single_image ::
  "platform \<Rightarrow> string \<Rightarrow> string \<Rightarrow> ppath \<Rightarrow> string \<Rightarrow> image_part option \<Rightarrow> image_part list
     \<Rightarrow> string \<Rightarrow> string \<Rightarrow> item_result effect" where
  "generate_single_image P client prompt_str output_path style_text edit_part ref_parts
       aspect_ratio model h =
     (let req = build_request client prompt_str style_text edit_part ref_parts aspect_ratio
                  model;
          h1 = h @ [GenerateContent req]
      in case generate_content P h req of
           Raises e \<Rightarrow> (Raises e, h1)
         | Exits code \<Rightarrow> (Exits code, h1)
         | Returns candidates \<Rightarrow>
             (case candidates of
                [] \<Rightarrow> (Raises ''list index out of range'', h1)
              | None # others \<Rightarrow>
                  (Raises ([CHR 0x27] @ ''NoneType'' @ [CHR 0x27]
                           @ '' object has no attribute '' @ [CHR 0x27] @ ''parts''
                           @ [CHR 0x27]), h1)
              | Some parts # others \<Rightarrow> extract_image P prompt_str output_path parts h1))"

subsection \<open>The batch\<close>

text \<open>The output file of the item at position \<open>i\<close> (from 0) among \<open>n\<close> prompts: lines
  370 to 374 of the source.\<close>

definition item_out_path :: "ppath \<Rightarrow> nat \<Rightarrow> nat \<Rightarrow> ppath" where
  "item_out_path output_base n i =
     (if n > 1 then
        path_join (path_parent output_base)
          (path_stem output_base @ ''_'' @ format_03d (i + 1) @ path_suffix output_base)
      else output_base)"

text \<open>What stays the same for every item of a batch: the client, the loaded inputs, the
  options, \<^verbatim>\<open>Path(output_path)\<close> and \<^verbatim>\<open>len(prompts)\<close>.\<close>

record shared =
  sh_client :: string
  sh_style_text :: string
  sh_edit_part :: "image_part option"
  sh_ref_parts :: "image_part list"
  sh_aspect_ratio :: string
  sh_model :: string
  sh_output_base :: ppath
  sh_len_prompts :: nat

text \<open>The dictionary appended when \<^verbatim>\<open>sanitize_prompt\<close> raises \<^verbatim>\<open>ValueError\<close>.\<close>

definition invalid_input_result :: "string \<Rightarrow> string \<Rightarrow> item_result" where
  "invalid_input_result prompt_str msg =
     \<lparr>success = False, error_code = INVALID_INPUT, error = Some msg, retries_used = None,
      prompt = Some prompt_str, output = None\<rparr>"

text \<open>
  The loop \<^verbatim>\<open>for i, prompt in enumerate(prompts)\<close> over the prompts that remain, with the
  variables \<^verbatim>\<open>results\<close> and \<^verbatim>\<open>total_retries\<close>. The decorator is applied without a second
  argument, so the retry budget of every item is \<^verbatim>\<open>DEFAULT_MAX_RETRIES\<close>.
\<close>

fun process_prompts ::
  "platform \<Rightarrow> shared \<Rightarrow> nat \<Rightarrow> string list \<Rightarrow> item_result list \<Rightarrow> int
     \<Rightarrow> (item_result list \<times> int) effect" where
  "process_prompts P S i [] acc total_retries h = (Returns (acc, total_retries), h)"
| "process_prompts P S i (prompt_str # rest) acc total_retries h =
     (case sanitize_prompt prompt_str of
        Raises e \<Rightarrow>
          process_prompts P S (i + 1) rest (acc @ [invalid_input_result prompt_str e])
            total_retries h
      | Exits code \<Rightarrow> (Exits code, h)
      | Returns safe_prompt \<Rightarrow>
          let out_path = item_out_path (sh_output_base S) (sh_len_prompts S) i
          in (case retry_with_backoff
                     (generate_single_image P (sh_client S) safe_prompt out_path
                        (sh_style_text S) (sh_edit_part S) (sh_ref_parts S)
                        (sh_aspect_ratio S) (sh_model S))
                     DEFAULT_MAX_RETRIES h of
                (Returns result, calls, h1) \<Rightarrow>
                  process_prompts P S (i + 1) rest (acc @ [result])
                    (total_retries + (case retries_used result of Some r \<Rightarrow> r | None \<Rightarrow> 0))
                    h1
              | (Raises e, calls, h1) \<Rightarrow> (Raises e, h1)
              | (Exits code, calls, h1) \<Rightarrow> (Exits code, h1)))"

text \<open>The loop over \<^verbatim>\<open>ref_paths\<close>, with the list \<^verbatim>\<open>ref_parts\<close> built so far.\<close>

fun load_refs :: "platform \<Rightarrow> string list \<Rightarrow> image_part list \<Rightarrow> image_part list effect" where
  "load_refs P [] ref_parts h = (Returns ref_parts, h)"
| "load_refs P (ref_path # rest) ref_parts h =
     (case load_image P ref_path h of
        (Returns part, h1) \<Rightarrow> load_refs P rest (ref_parts @ [part]) h1
      | (Raises e, h1) \<Rightarrow> (Raises e, h1)
      | (Exits code, h1) \<Rightarrow> (Exits code, h1))"

text \<open>Lines 337 to 351: the style text, the reference images and the image to edit, in
  this order. A path that is \<^verbatim>\<open>None\<close> or empty is skipped.\<close>

definition load_shared ::
  "platform \<Rightarrow> string option \<Rightarrow> string option \<Rightarrow> string list option
     \<Rightarrow> (string \<times> image_part list \<times> image_part option) effect" where
  "load_shared P style_path edit_path ref_paths h =
     (case (case style_path of
              None \<Rightarrow> (Returns [], h)
            | Some sp \<Rightarrow> if sp = [] then (Returns [], h) else load_style P sp h) of
        (Raises e, h1) \<Rightarrow> (Raises e, h1)
      | (Exits code, h1) \<Rightarrow> (Exits code, h1)
      | (Returns style_text, h1) \<Rightarrow>
          (case load_refs P (case ref_paths of None \<Rightarrow> [] | Some rps \<Rightarrow> rps) [] h1 of
             (Raises e, h2) \<Rightarrow> (Raises e, h2)
           | (Exits code, h2) \<Rightarrow> (Exits code, h2)
           | (Returns ref_parts, h2) \<Rightarrow>
               (case edit_path of
                  None \<Rightarrow> (Returns (style_text, ref_parts, None), h2)
                | Some ep \<Rightarrow>
                    if ep = [] then (Returns (style_text, ref_parts, None), h2)
                    else (case load_image P ep h2 of
                            (Raises e, h3) \<Rightarrow> (Raises e, h3)
                          | (Exits code, h3) \<Rightarrow> (Exits code, h3)
                          | (Returns part, h3) \<Rightarrow>
                              (Returns (style_text, ref_parts, Some part), h3)))))"

text \<open>Lines 394 to 405: the counts and the dictionary that is returned.\<close>

definition aggregate :: "item_result list \<Rightarrow> nat \<Rightarrow> int \<Rightarrow> batch_result" where
  "aggregate acc len_prompts total_retries =
     (let n_succeeded = int (length (filter success acc));
          n_failed = int (length acc) - n_succeeded
      in \<lparr>success = (n_failed = 0),
          error_code = (if n_failed = 0 then SUCCESS else PARTIAL_FAILURE),
          error = None,
          retries_used = Some total_retries,
          results = acc,
          total = int len_prompts,
          succeeded = n_succeeded,
          failed = n_failed\<rparr>)"

text \<open>\<^verbatim>\<open>generate_image\<close>. The test \<^verbatim>\<open>if not api_key\<close> fails for a variable that is absent and
  for one that is empty. The client is represented by its key, and building it is taken
  to succeed. The parameter \<^verbatim>\<open>max_retries\<close> is accepted and never read.\<close>

definition generate_image ::
  "platform \<Rightarrow> string list \<Rightarrow> string \<Rightarrow> string option \<Rightarrow> string option \<Rightarrow> string list option
     \<Rightarrow> string \<Rightarrow> string \<Rightarrow> int \<Rightarrow> batch_result effect" where
  "generate_image P prompts output_path style_path edit_path ref_paths aspect_ratio model
       max_retries h =
     (let h0 = h @ [GetEnv ''GEMINI_API_KEY'']
      in case getenv P ''GEMINI_API_KEY'' of
           None \<Rightarrow>
             (Returns \<lparr>success = False, error_code = API_KEY_MISSING,
                       error = Some ''GEMINI_API_KEY not set'', retries_used = None,
                       results = [], total = int (length prompts), succeeded = 0,
                       failed = int (length prompts)\<rparr>, h0)
         | Some api_key \<Rightarrow>
             if api_key = [] then
               (Returns \<lparr>success = False, error_code = API_KEY_MISSING,
                         error = Some ''GEMINI_API_KEY not set'', retries_used = None,
                         results = [], total = int (length prompts), succeeded = 0,
                         failed = int (length prompts)\<rparr>, h0)
             else
               (case load_shared P style_path edit_path ref_paths h0 of
                  (Raises e, h1) \<Rightarrow> (Raises e, h1)
                | (Exits code, h1) \<Rightarrow> (Exits code, h1)
                | (Returns (style_text, ref_parts, edit_part), h1) \<Rightarrow>
                    (case process_prompts P
                            \<lparr>sh_client = api_key, sh_style_text = style_text,
                             sh_edit_part = edit_part, sh_ref_parts = ref_parts,
                             sh_aspect_ratio = aspect_ratio, sh_model = model,
                             sh_output_base = Path output_path,
                             sh_len_prompts = length prompts\<rparr>
                            0 prompts [] 0 h1 of
                       (Raises e, h2) \<Rightarrow> (Raises e, h2)
                     | (Exits code, h2) \<Rightarrow> (Exits code, h2)
                     | (Returns (acc, total_retries), h2) \<Rightarrow>
                         (Returns (aggregate acc (length prompts) total_retries), h2))))"

text \<open>The dictionary returned when the budget is exhausted.\<close>

definition exhausted_result :: "int \<Rightarrow> string \<Rightarrow> int \<Rightarrow> item_result" where
  "exhausted_result max_retries e retries =
     \<lparr>success = False,
      error_code = (if str_in ''rate'' (lower e) then RATE_LIMITED else NETWORK_ERROR),
      error = Some (''Failed after '' @ str_int max_retries @ '' retries: '' @ e),
      retries_used = Some retries, prompt = None, output = None\<rparr>"


subsection \<open>What a result says about its prompt\<close>

text \<open>The two dictionaries \<^verbatim>\<open>generate_single_image\<close> can return, and the shape of the two
  the retry wrapper builds itself (for an error that is not retryable, and for an
  exhausted budget).\<close>

definition success_result :: "string \<Rightarrow> ppath \<Rightarrow> item_result" where
  "success_result prompt_str output_path =
     \<lparr>success = True, error_code = SUCCESS, error = None, retries_used = None,
      prompt = Some prompt_str, output = Some (path_str output_path)\<rparr>"

definition no_image_result :: "string \<Rightarrow> item_result" where
  "no_image_result prompt_str =
     \<lparr>success = False, error_code = API_ERROR, error = Some ''No image in response'',
      retries_used = None, prompt = Some prompt_str, output = None\<rparr>"

definition wrapper_failure :: "item_result \<Rightarrow> bool" where
  "wrapper_failure r =
     (\<not> success r \<and> prompt r = None \<and> output r = None \<and> error r \<noteq> None
      \<and> retries_used r \<noteq> None
      \<and> error_code r \<in> {API_ERROR, RATE_LIMITED, NETWORK_ERROR})"

text \<open>\<open>item_matches output_base n i p r\<close>: the dictionary \<open>r\<close> is one that the loop can append
  for the prompt \<open>p\<close> at position \<open>i\<close> (from 0) of \<open>n\<close> prompts.\<close>

definition item_matches :: "ppath \<Rightarrow> nat \<Rightarrow> nat \<Rightarrow> string \<Rightarrow> item_result \<Rightarrow> bool" where
  "item_matches output_base n i p r =
     (case sanitize_prompt p of
        Raises e \<Rightarrow> r = invalid_input_result p e
      | Exits code \<Rightarrow> False
      | Returns safe_prompt \<Rightarrow>
          (\<exists>k. r = (success_result safe_prompt (item_out_path output_base n i))
                       \<lparr>retries_used := Some k\<rparr>
             \<or> r = (no_image_result safe_prompt)\<lparr>retries_used := Some k\<rparr>)
          \<or> wrapper_failure r)"

subsection \<open>Shared inputs that are absent\<close>







text \<open>A platform none of whose calls leaves the process (as \<^verbatim>\<open>sys.exit\<close> or an
  interrupt would).\<close>

definition never_exits :: "platform \<Rightarrow> bool" where
  "never_exits P =
     ((\<forall>h req c. generate_content P h req \<noteq> Exits c)
      \<and> (\<forall>d c. b64decode P d \<noteq> Exits c)
      \<and> (\<forall>h p c. mkdir P h p \<noteq> Exits c)
      \<and> (\<forall>h p d c. write_bytes P h p d \<noteq> Exits c))"

subsection \<open>Platforms for the examples\<close>

text \<open>A service that answers the first request with a retryable error and every later
  one with a response whose only part is text.\<close>

definition text_only_service :: platform where
  "text_only_service =
     \<lparr>getenv = (\<lambda>k. if k = ''GEMINI_API_KEY'' then Some ''key'' else None),
      path_exists = (\<lambda>p. False),
      read_text = (\<lambda>p. Raises ''unreadable''),
      read_bytes = (\<lambda>p. Raises ''unreadable''),
      generate_content =
        (\<lambda>h req. if h = [] then Raises ''503'' else Returns [Some [\<lparr>inline_data = None\<rparr>]]),
      b64decode = (\<lambda>d. Returns d),
      mkdir = (\<lambda>h p. Returns ()),
      write_bytes = (\<lambda>h p d. Returns ())\<rparr>"

text \<open>A service that answers a request with a retryable error while the history has at
  most one event, and with one image afterwards; there are no files to load.\<close>

definition flaky_service :: platform where
  "flaky_service =
     \<lparr>getenv = (\<lambda>k. if k = ''GEMINI_API_KEY'' then Some ''key'' else None),
      path_exists = (\<lambda>p. False),
      read_text = (\<lambda>p. Raises ''unreadable''),
      read_bytes = (\<lambda>p. Raises ''unreadable''),
      generate_content =
        (\<lambda>h req. if length h \<le> 1 then Raises ''503''
                  else Returns [Some [\<lparr>inline_data = Some ''QUJD''\<rparr>]]),
      b64decode = (\<lambda>d. Returns d),
      mkdir = (\<lambda>h p. Returns ()),
      write_bytes = (\<lambda>h p d. Returns ())\<rparr>"

text \<open>A service that answers every request with an error that is not retryable.\<close>

definition failing_service :: platform where
  "failing_service =
     \<lparr>getenv = (\<lambda>k. if k = ''GEMINI_API_KEY'' then Some ''key'' else None),
      path_exists = (\<lambda>p. False),
      read_text = (\<lambda>p. Raises ''unreadable''),
      read_bytes = (\<lambda>p. Raises ''unreadable''),
      generate_content = (\<lambda>h req. Raises ''HTTP 500''),
      b64decode = (\<lambda>d. Returns d),
      mkdir = (\<lambda>h p. Returns ()),
      write_bytes = (\<lambda>h p d. Returns ())\<rparr>"

section \<open>Properties\<close>

subsection \<open>Strings and ranges\<close>

lemma startswith_iff: "startswith s p \<longleftrightarrow> (\<exists>post. s = p @ post)"
  by (induction s p rule: startswith.induct) auto

lemma str_in_iff: "str_in pat s \<longleftrightarrow> (\<exists>pre post. s = pre @ pat @ post)"
proof (induction s)
  case Nil
  then show ?case by auto
next
  case (Cons c cs)
  show ?case
  proof
    assume "str_in pat (c # cs)"
    then consider "startswith (c # cs) pat" | "str_in pat cs" by auto
    then show "\<exists>pre post. c # cs = pre @ pat @ post"
    proof cases
      case 1
      then obtain post where "c # cs = pat @ post" by (auto simp: startswith_iff)
      then have "c # cs = [] @ pat @ post" by simp
      then show ?thesis by blast
    next
      case 2
      then obtain pre post where "cs = pre @ pat @ post" using Cons.IH by blast
      then have "c # cs = (c # pre) @ pat @ post" by simp
      then show ?thesis by blast
    qed
  next
    assume "\<exists>pre post. c # cs = pre @ pat @ post"
    then obtain pre post where eq: "c # cs = pre @ pat @ post" by blast
    show "str_in pat (c # cs)"
    proof (cases pre)
      case Nil
      then have "startswith (c # cs) pat" using eq by (auto simp: startswith_iff)
      then show ?thesis by simp
    next
      case (Cons d ds)
      then have "cs = ds @ pat @ post" using eq by simp
      then have "str_in pat cs" using Cons.IH by blast
      then show ?thesis by simp
    qed
  qed
qed









subsection \<open>The retry executor\<close>

lemmas lower_eval = lower_def lower_char_def ascii_uppercase_def ascii_lowercase_def
  latin1_uppercase_def latin1_lowercase_def

lemmas retry_eval = is_retryable_error_def RETRYABLE_ERRORS_def lower_eval





lemma retry_first_attempt:
  assumes N: "0 \<le> N"
  shows "retry_with_backoff func N h =
           wrapper_loop func N (0 # map (\<lambda>k. k + 1) (py_range N)) None 0 0 h"
proof -
  have "[0..<Suc (nat N)] = 0 # map Suc [0..<nat N]"
    by (simp add: upt_conv_Cons map_Suc_upt del: upt_Suc)
  then have "py_range (N + 1) = 0 # map (\<lambda>k. k + 1) (py_range N)"
    using N by (simp add: py_range_def nat_add_distrib del: upt_Suc)
  then show ?thesis by (simp add: retry_with_backoff_def)
qed

text \<open>
  Claim C3. An error text is classified retryable exactly when its lowercase contains one
  of the seven entries of the vocabulary. When the first invocation of the operation
  raises an error that matches none of them, the retry executor returns after that one
  invocation, with error code \<open>API_ERROR\<close>, the error text as message and \<^verbatim>\<open>retries_used\<close>
  equal to 0, whatever the budget \<open>N \<ge> 0\<close> is.
\<close>

theorem non_retryable_fails_at_once:
  "(is_retryable_error e \<longleftrightarrow>
      (\<exists>pattern \<in> set [''rate limit'', ''429'', ''503'', ''502'', ''connection'', ''timeout'',
                         ''temporarily unavailable''].
         \<exists>pre post. lower e = pre @ pattern @ post))
   \<and> (\<not> is_retryable_error e \<and> func h = (Raises e, h1) \<and> 0 \<le> N \<longrightarrow>
        retry_with_backoff func N h =
          (Returns \<lparr>success = False, error_code = API_ERROR, error = Some e,
                    retries_used = Some 0, prompt = None, output = None\<rparr>, 1, h1))"
proof (intro conjI impI)
  show "is_retryable_error e \<longleftrightarrow>
      (\<exists>pattern \<in> set [''rate limit'', ''429'', ''503'', ''502'', ''connection'', ''timeout'',
                         ''temporarily unavailable''].
         \<exists>pre post. lower e = pre @ pattern @ post)"
    unfolding is_retryable_error_def RETRYABLE_ERRORS_def Let_def str_in_iff ..
next
  assume a: "\<not> is_retryable_error e \<and> func h = (Raises e, h1) \<and> 0 \<le> N"
  then show "retry_with_backoff func N h =
          (Returns \<lparr>success = False, error_code = API_ERROR, error = Some e,
                    retries_used = Some 0, prompt = None, output = None\<rparr>, 1, h1)"
    by (simp add: retry_first_attempt)
qed

lemma lower_HTTP_500: "lower ''HTTP 500'' = ''http 500''"
  by (simp add: lower_eval)

lemma not_retryable_HTTP_500: "\<not> is_retryable_error ''HTTP 500''"
  by (simp add: is_retryable_error_def RETRYABLE_ERRORS_def lower_HTTP_500)

theorem non_retryable_fails_at_once_witness:
  "\<not> is_retryable_error ''HTTP 500''
   \<and> retry_with_backoff (\<lambda>h. (Raises ''HTTP 500'', h @ [GetEnv ''probe''])) 3 [] =
       (Returns \<lparr>success = False, error_code = API_ERROR, error = Some ''HTTP 500'',
                 retries_used = Some 0, prompt = None, output = None\<rparr>, 1, [GetEnv ''probe''])"
  using non_retryable_fails_at_once
          [of "''HTTP 500''" "\<lambda>h. (Raises ''HTTP 500'', h @ [GetEnv ''probe''])" "[]"
              "[GetEnv ''probe'']" 3]
        not_retryable_HTTP_500
  by simp

subsection \<open>The backoff policy\<close>



subsection \<open>A response without an image\<close>



lemma retryable_503: "is_retryable_error ''503''"
  by (simp add: retry_eval)


subsection \<open>The missing credential\<close>

text \<open>
  Claim C4. When the variable \<^verbatim>\<open>GEMINI_API_KEY\<close> is absent (or empty, which the code treats
  alike), \<open>generate_image\<close> returns the failure with error code \<open>API_KEY_MISSING\<close>, no
  results, \<^verbatim>\<open>total\<close> and \<^verbatim>\<open>failed\<close> equal to the number of prompts and \<^verbatim>\<open>succeeded\<close> equal
  to 0. The history grows by the lookup of the variable and by nothing else: no file is
  tested, read or written, no request is sent, no item is attempted.
\<close>

theorem missing_credential_short_circuits:
  assumes "getenv P ''GEMINI_API_KEY'' = None \<or> getenv P ''GEMINI_API_KEY'' = Some []"
  shows "generate_image P prompts output_path style_path edit_path ref_paths aspect_ratio model
           max_retries h =
         (Returns \<lparr>success = False, error_code = API_KEY_MISSING,
                   error = Some ''GEMINI_API_KEY not set'', retries_used = None,
                   results = [], total = int (length prompts), succeeded = 0,
                   failed = int (length prompts)\<rparr>,
          h @ [GetEnv ''GEMINI_API_KEY''])"
  using assms by (auto simp: generate_image_def Let_def)

theorem missing_credential_short_circuits_witness:
  "generate_image (text_only_service\<lparr>getenv := \<lambda>k. None\<rparr>) [''a cat'', ''a dog''] ''out.png''
     (Some ''style.md'') (Some ''photo.jpg'') (Some [''ref.png'']) ''1:1'' ''m'' 3 [] =
   (Returns \<lparr>success = False, error_code = API_KEY_MISSING,
             error = Some ''GEMINI_API_KEY not set'', retries_used = None,
             results = [], total = 2, succeeded = 0, failed = 2\<rparr>,
    [GetEnv ''GEMINI_API_KEY''])"
  using missing_credential_short_circuits
          [of "text_only_service\<lparr>getenv := \<lambda>k. None\<rparr>" "[''a cat'', ''a dog'']" "''out.png''"
              "Some ''style.md''" "Some ''photo.jpg''" "Some [''ref.png'']" "''1:1''" "''m''" 3 "[]"]
  by simp

subsection \<open>The sanitizer\<close>







subsection \<open>The results of a batch\<close>

lemma extract_image_result:
  "extract_image P sp out parts h = (Returns r, h') \<Longrightarrow>
   r = success_result sp out \<or> r = no_image_result sp"
proof (induction parts arbitrary: h)
  case Nil
  then show ?case by (simp add: no_image_result_def)
next
  case (Cons part rest)
  show ?case
  proof (cases "inline_data part")
    case None
    then show ?thesis using Cons by simp
  next
    case (Some d)
    then have "r = success_result sp out"
      using Cons.prems
      by (simp add: success_result_def Let_def split: outcome.splits)
    then show ?thesis ..
  qed
qed

lemma generate_single_image_result:
  assumes "generate_single_image P client sp out style_text edit_part ref_parts aspect_ratio
             model h = (Returns r, h')"
  shows "r = success_result sp out \<or> r = no_image_result sp"
proof -
  let ?req = "build_request client sp style_text edit_part ref_parts aspect_ratio model"
  from assms obtain parts others where
    "extract_image P sp out parts (h @ [GenerateContent ?req]) = (Returns r, h')"
    by (simp add: generate_single_image_def Let_def
        split: outcome.splits list.splits option.splits)
  then show ?thesis by (rule extract_image_result)
qed

lemma wrapper_loop_result:
  assumes Q: "\<And>h r h'. func h = (Returns r, h') \<Longrightarrow> Q r"
  shows "wrapper_loop func N attempts le retries calls h = (Returns r, c', h') \<Longrightarrow>
         (\<exists>r0 k. Q r0 \<and> r = r0\<lparr>retries_used := Some k\<rparr>) \<or> wrapper_failure r"
proof (induction attempts arbitrary: le retries calls h)
  case Nil
  show ?case
  proof (cases le)
    case None
    then show ?thesis using Nil by simp
  next
    case (Some e)
    then have "r = exhausted_result N e retries" using Nil by (simp add: exhausted_result_def)
    then have "wrapper_failure r" by (simp add: wrapper_failure_def exhausted_result_def)
    then show ?thesis ..
  qed
next
  case (Cons a rest)
  obtain oc h1 where f: "func h = (oc, h1)" by (cases "func h")
  show ?case
  proof (cases oc)
    case (Returns r0)
    then have "Q r0" using Q f by blast
    moreover have "r = r0\<lparr>retries_used := Some retries\<rparr>"
      using Cons.prems f Returns by simp
    ultimately show ?thesis by blast
  next
    case (Raises e)
    show ?thesis
    proof (cases "is_retryable_error e")
      case False
      then have "r = \<lparr>success = False, error_code = API_ERROR, error = Some e,
                      retries_used = Some retries, prompt = None, output = None\<rparr>"
        using Cons.prems f Raises by simp
      then have "wrapper_failure r" by (simp add: wrapper_failure_def)
      then show ?thesis ..
    next
      case True
      show ?thesis
      proof (cases "a < N")
        case True
        with \<open>is_retryable_error e\<close> Cons.prems f Raises
        have "wrapper_loop func N rest (Some e) (retries + 1) (Suc calls)
                (h1 @ [Sleep (calculate_backoff a 1.0 60.0)]) = (Returns r, c', h')"
          by simp
        then show ?thesis by (rule Cons.IH)
      next
        case False
        with \<open>is_retryable_error e\<close> Cons.prems f Raises
        have "wrapper_loop func N rest (Some e) retries (Suc calls) h1 = (Returns r, c', h')"
          by simp
        then show ?thesis by (rule Cons.IH)
      qed
    qed
  next
    case (Exits c)
    then show ?thesis using Cons.prems f by simp
  qed
qed

lemma retry_item_matches:
  assumes "retry_with_backoff
             (generate_single_image P client sp out style_text edit_part ref_parts aspect_ratio
                model) N h = (Returns r, c', h')"
  shows "(\<exists>k. r = (success_result sp out)\<lparr>retries_used := Some k\<rparr>
              \<or> r = (no_image_result sp)\<lparr>retries_used := Some k\<rparr>)
         \<or> wrapper_failure r"
proof -
  let ?Q = "\<lambda>r. r = success_result sp out \<or> r = no_image_result sp"
  let ?f = "generate_single_image P client sp out style_text edit_part ref_parts aspect_ratio
              model"
  have Q: "\<And>h r h'. ?f h = (Returns r, h') \<Longrightarrow> ?Q r"
    by (rule generate_single_image_result)
  from wrapper_loop_result[of ?f ?Q, OF Q assms[unfolded retry_with_backoff_def]]
  have "(\<exists>r0 k. ?Q r0 \<and> r = r0\<lparr>retries_used := Some k\<rparr>) \<or> wrapper_failure r" .
  then show ?thesis by blast
qed

lemma process_prompts_step:
  assumes "process_prompts P S i (p # rest) acc tr h = (Returns (acc', tr'), h')"
  shows "\<exists>x tr1 h1. item_matches (sh_output_base S) (sh_len_prompts S) i p x
      \<and> process_prompts P S (i + 1) rest (acc @ [x]) tr1 h1 = (Returns (acc', tr'), h')"
proof (cases "sanitize_prompt p")
  case (Raises e)
  then have "item_matches (sh_output_base S) (sh_len_prompts S) i p (invalid_input_result p e)"
    by (simp add: item_matches_def)
  moreover have "process_prompts P S (i + 1) rest (acc @ [invalid_input_result p e]) tr h =
      (Returns (acc', tr'), h')"
    using assms Raises by simp
  ultimately show ?thesis by blast
next
  case (Exits c)
  then show ?thesis using assms by simp
next
  case sp: (Returns sp)
  let ?out = "item_out_path (sh_output_base S) (sh_len_prompts S) i"
  let ?run = "retry_with_backoff
                (generate_single_image P (sh_client S) sp ?out (sh_style_text S)
                   (sh_edit_part S) (sh_ref_parts S) (sh_aspect_ratio S) (sh_model S))
                DEFAULT_MAX_RETRIES h"
  obtain oc c1 h1 where run: "?run = (oc, c1, h1)" by (cases ?run)
  show ?thesis
  proof (cases oc)
    case (Returns x)
    have "item_matches (sh_output_base S) (sh_len_prompts S) i p x"
      using retry_item_matches[OF run[unfolded Returns]] sp
      by (simp add: item_matches_def)
    moreover have "process_prompts P S (i + 1) rest (acc @ [x])
        (tr + (case retries_used x of Some r \<Rightarrow> r | None \<Rightarrow> 0)) h1 = (Returns (acc', tr'), h')"
      using assms sp run Returns by (simp add: Let_def)
    ultimately show ?thesis by blast
  next
    case (Raises e)
    then show ?thesis using assms sp run by (simp add: Let_def)
  next
    case (Exits c)
    then show ?thesis using assms sp run by (simp add: Let_def)
  qed
qed

lemma process_prompts_results:
  "process_prompts P S i ps acc tr h = (Returns (acc', tr'), h') \<Longrightarrow>
   \<exists>new. acc' = acc @ new \<and> length new = length ps
     \<and> (\<forall>k < length ps.
           item_matches (sh_output_base S) (sh_len_prompts S) (i + k) (ps ! k) (new ! k))"
proof (induction ps arbitrary: i acc tr h)
  case Nil
  then show ?case by simp
next
  case (Cons p rest)
  let ?M = "item_matches (sh_output_base S) (sh_len_prompts S)"
  from process_prompts_step[OF Cons.prems] obtain x tr1 h1 where x: "?M i p x"
    and rec: "process_prompts P S (i + 1) rest (acc @ [x]) tr1 h1 = (Returns (acc', tr'), h')"
    by blast
  from Cons.IH[OF rec] obtain new where new: "acc' = (acc @ [x]) @ new"
    "length new = length rest"
    "\<forall>k < length rest. ?M (i + 1 + k) (rest ! k) (new ! k)" by blast
  have "\<forall>k < length (p # rest). ?M (i + k) ((p # rest) ! k) ((x # new) ! k)"
  proof (intro allI impI)
    fix k assume k: "k < length (p # rest)"
    show "?M (i + k) ((p # rest) ! k) ((x # new) ! k)"
    proof (cases k)
      case 0
      then show ?thesis using x by simp
    next
      case (Suc j)
      then show ?thesis using new(3) k by simp
    qed
  qed
  then show ?case using new by (intro exI[of _ "x # new"]) simp
qed

lemma aggregate_counts:
  "succeeded (aggregate acc n tr) + failed (aggregate acc n tr) = int (length acc)
   \<and> succeeded (aggregate acc n tr) = int (length (filter success acc))
   \<and> failed (aggregate acc n tr) = int (length (filter (\<lambda>r. \<not> success r) acc))
   \<and> total (aggregate acc n tr) = int n
   \<and> results (aggregate acc n tr) = acc
   \<and> success (aggregate acc n tr) = (failed (aggregate acc n tr) = 0)
   \<and> error_code (aggregate acc n tr) =
       (if failed (aggregate acc n tr) = 0 then SUCCESS else PARTIAL_FAILURE)"
proof -
  let ?A = "aggregate acc n tr"
  have cnt: "length (filter success acc) + length (filter (\<lambda>r. \<not> success r) acc) = length acc"
    by (rule sum_length_filter_compl)
  have s: "succeeded ?A = int (length (filter success acc))"
    by (simp add: aggregate_def Let_def)
  have f0: "failed ?A = int (length acc) - int (length (filter success acc))"
    by (simp add: aggregate_def Let_def)
  have f: "failed ?A = int (length (filter (\<lambda>r. \<not> success r) acc))"
    unfolding f0 using cnt by linarith
  have sum: "succeeded ?A + failed ?A = int (length acc)"
    unfolding s f0 by simp
  have t: "total ?A = int n" and r: "results ?A = acc"
    by (simp_all add: aggregate_def Let_def)
  have ok: "success ?A = (failed ?A = 0)"
    unfolding f0 by (simp add: aggregate_def Let_def)
  have code: "error_code ?A = (if failed ?A = 0 then SUCCESS else PARTIAL_FAILURE)"
    unfolding f0 by (simp add: aggregate_def Let_def)
  show ?thesis using sum s f t r ok code by blast
qed

lemma generate_image_returns:
  assumes cred: "getenv P ''GEMINI_API_KEY'' = Some key" "key \<noteq> []"
    and ret: "generate_image P prompts output_path style_path edit_path ref_paths aspect_ratio
                model max_retries h = (Returns b, h')"
  shows "\<exists>acc tr. b = aggregate acc (length prompts) tr \<and> length acc = length prompts
           \<and> (\<forall>i < length prompts.
                 item_matches (Path output_path) (length prompts) i (prompts ! i) (acc ! i))"
proof -
  let ?h0 = "h @ [GetEnv ''GEMINI_API_KEY'']"
  obtain oc h1 where ls: "load_shared P style_path edit_path ref_paths ?h0 = (oc, h1)"
    by (cases "load_shared P style_path edit_path ref_paths ?h0")
  from ret cred ls obtain style_text ref_parts edit_part where
    oc: "oc = Returns (style_text, ref_parts, edit_part)"
    by (cases oc) (auto simp: generate_image_def Let_def)
  let ?S = "\<lparr>sh_client = key, sh_style_text = style_text, sh_edit_part = edit_part,
             sh_ref_parts = ref_parts, sh_aspect_ratio = aspect_ratio, sh_model = model,
             sh_output_base = Path output_path, sh_len_prompts = length prompts\<rparr>"
  obtain oc2 h2 where pp: "process_prompts P ?S 0 prompts [] 0 h1 = (oc2, h2)"
    by (cases "process_prompts P ?S 0 prompts [] 0 h1")
  from ret cred ls oc pp obtain acc tr where
    oc2: "oc2 = Returns (acc, tr)" and b: "b = aggregate acc (length prompts) tr"
    by (cases oc2) (auto simp: generate_image_def Let_def)
  from process_prompts_results[OF pp[unfolded oc2]]
  have "length acc = length prompts"
    "\<forall>i < length prompts. item_matches (Path output_path) (length prompts) i (prompts ! i) (acc ! i)"
    by auto
  with b show ?thesis by blast
qed

text \<open>
  Claim C1. Let the credential be present (the variable is set and not empty) and let
  \<open>generate_image\<close> return the dictionary \<open>b\<close>. Then \<^verbatim>\<open>succeeded + failed = total\<close>, and
  \<^verbatim>\<open>total\<close> is the number of prompts; \<^verbatim>\<open>results\<close> has one element for each prompt, in the order
  of the prompts, and the element at position \<open>i\<close> is a dictionary the loop builds for
  prompt \<open>i\<close> (\<open>item_matches\<close>); \<^verbatim>\<open>succeeded\<close> and \<^verbatim>\<open>failed\<close> count the elements with a true
  and a false \<^verbatim>\<open>success\<close>; the overall \<^verbatim>\<open>success\<close> is true exactly when \<^verbatim>\<open>failed\<close> is 0, and the
  error code is \<open>SUCCESS\<close> then and \<open>PARTIAL_FAILURE\<close> otherwise.
\<close>

theorem batch_outcome_invariants:
  assumes cred: "getenv P ''GEMINI_API_KEY'' = Some key" "key \<noteq> []"
    and ret: "generate_image P prompts output_path style_path edit_path ref_paths aspect_ratio
                model max_retries h = (Returns b, h')"
  shows "succeeded b + failed b = total b
       \<and> total b = int (length prompts)
       \<and> length (results b) = length prompts
       \<and> (\<forall>i < length prompts.
             item_matches (Path output_path) (length prompts) i (prompts ! i) (results b ! i))
       \<and> succeeded b = int (length (filter success (results b)))
       \<and> failed b = int (length (filter (\<lambda>r. \<not> success r) (results b)))
       \<and> success b = (failed b = 0)
       \<and> error_code b = (if failed b = 0 then SUCCESS else PARTIAL_FAILURE)"
proof -
  from generate_image_returns[OF assms] obtain acc tr where
    b: "b = aggregate acc (length prompts) tr" and len: "length acc = length prompts"
    and m: "\<forall>i < length prompts.
              item_matches (Path output_path) (length prompts) i (prompts ! i) (acc ! i)"
    by blast
  note a = aggregate_counts[of acc "length prompts" tr]
  show ?thesis unfolding b using a len m by simp
qed

lemmas path_eval = Path_def splitroot_def path_str_def path_name_def rfind_dot_def
  path_suffix_def path_stem_def path_parent_def path_join_def

lemma format_03d_examples:
  "format_03d 1 = ''001''" "format_03d 2 = ''002''" "format_03d 3 = ''003''"
  "format_03d 1000 = ''1000''"
  by (simp_all add: format_03d_def str_nat.simps numeral_2_eq_2)

lemma format_03d_Suc:
  "format_03d (Suc 0) = ''001''" "format_03d (Suc (Suc 0)) = ''002''"
  "format_03d (Suc (Suc (Suc 0))) = ''003''"
  using format_03d_examples(1-3) by (simp_all add: numeral_2_eq_2 numeral_3_eq_3)

lemma out_path_examples:
  "item_out_path (Path ''o/out.png'') 3 1 = \<lparr>anchor = [], tail = [''o'', ''out_002.png'']\<rparr>"
  "item_out_path (Path ''o/out.png'') 3 2 = \<lparr>anchor = [], tail = [''o'', ''out_003.png'']\<rparr>"
  by (simp_all add: item_out_path_def path_eval format_03d_Suc format_03d_examples)

lemma out_path_examples_Suc:
  "item_out_path (Path ''o/out.png'') (Suc (Suc (Suc 0))) (Suc 0) =
     \<lparr>anchor = [], tail = [''o'', ''out_002.png'']\<rparr>"
  "item_out_path (Path ''o/out.png'') (Suc (Suc (Suc 0))) (Suc (Suc 0)) =
     \<lparr>anchor = [], tail = [''o'', ''out_003.png'']\<rparr>"
  using out_path_examples by (simp_all add: numeral_3_eq_3 numeral_2_eq_2)

lemma sanitize_examples:
  "sanitize_prompt [] = Raises ''Prompt cannot be empty''"
  "sanitize_prompt ''a cat'' = Returns ''a cat''"
  "sanitize_prompt ''x;y'' = Returns ([CHR 0x27] @ ''x;y'' @ [CHR 0x27])"
  by (simp_all add: sanitize_prompt_def strip_def isspace_def whitespace_def
      search_dangerous_def SHELL_DANGEROUS_CHARS_def shlex_quote_def shlex_safe_chars_def
      replace_quotes_def ascii_lowercase_def ascii_uppercase_def)

lemma flaky_batch:
  "generate_image flaky_service ['''', ''a cat'', ''x;y''] ''o/out.png'' None None None ''1:1''
     ''m'' 3 [] =
   (Returns
     \<lparr>success = False, error_code = PARTIAL_FAILURE, error = None, retries_used = Some 1,
      results =
        [\<lparr>success = False, error_code = INVALID_INPUT,
          error = Some ''Prompt cannot be empty'', retries_used = None,
          prompt = Some [], output = None\<rparr>,
         \<lparr>success = True, error_code = SUCCESS, error = None, retries_used = Some 1,
          prompt = Some ''a cat'', output = Some ''o/out_002.png''\<rparr>,
         \<lparr>success = True, error_code = SUCCESS, error = None, retries_used = Some 0,
          prompt = Some ([CHR 0x27] @ ''x;y'' @ [CHR 0x27]),
          output = Some ''o/out_003.png''\<rparr>],
      total = 3, succeeded = 2, failed = 1\<rparr>,
    [GetEnv ''GEMINI_API_KEY'',
     GenerateContent \<lparr>req_client = ''key'', req_model = ''m'',
                      req_contents = [Text ''a cat''], req_aspect_ratio = ''1:1''\<rparr>,
     Sleep 1,
     GenerateContent \<lparr>req_client = ''key'', req_model = ''m'',
                      req_contents = [Text ''a cat''], req_aspect_ratio = ''1:1''\<rparr>,
     Mkdir ''o'', WriteBytes ''o/out_002.png'' ''QUJD'',
     GenerateContent \<lparr>req_client = ''key'', req_model = ''m'',
                      req_contents = [Text ([CHR 0x27] @ ''x;y'' @ [CHR 0x27])],
                      req_aspect_ratio = ''1:1''\<rparr>,
     Mkdir ''o'', WriteBytes ''o/out_003.png'' ''QUJD''])"
  by (simp add: generate_image_def load_shared_def flaky_service_def sanitize_examples
      out_path_examples_Suc invalid_input_result_def retry_first_attempt DEFAULT_MAX_RETRIES_def
      generate_single_image_def build_request_def retryable_503 calculate_backoff_def
      py_range_def upt_rec path_str_def path_parent_def aggregate_def Let_def)

theorem batch_outcome_invariants_witness:
  "\<exists>b h'. generate_image flaky_service ['''', ''a cat'', ''x;y''] ''o/out.png'' None None None
             ''1:1'' ''m'' 3 [] = (Returns b, h')
      \<and> succeeded b + failed b = total b \<and> total b = 3 \<and> length (results b) = 3
      \<and> item_matches (Path ''o/out.png'') 3 1 ''a cat'' (results b ! 1)
      \<and> succeeded b = 2 \<and> failed b = 1 \<and> \<not> success b \<and> error_code b = PARTIAL_FAILURE"
proof -
  have c1: "getenv flaky_service ''GEMINI_API_KEY'' = Some ''key''"
    by (simp add: flaky_service_def)
  have c2: "''key'' \<noteq> []" by simp
  note inv = batch_outcome_invariants[OF c1 c2 flaky_batch]
  from inv have
    "item_matches (Path ''o/out.png'') (length ['''', ''a cat'', ''x;y'']) 1
       (['''', ''a cat'', ''x;y''] ! 1)
       (results
         \<lparr>success = False, error_code = PARTIAL_FAILURE, error = None, retries_used = Some 1,
          results =
            [\<lparr>success = False, error_code = INVALID_INPUT,
              error = Some ''Prompt cannot be empty'', retries_used = None,
              prompt = Some [], output = None\<rparr>,
             \<lparr>success = True, error_code = SUCCESS, error = None, retries_used = Some 1,
              prompt = Some ''a cat'', output = Some ''o/out_002.png''\<rparr>,
             \<lparr>success = True, error_code = SUCCESS, error = None, retries_used = Some 0,
              prompt = Some ([CHR 0x27] @ ''x;y'' @ [CHR 0x27]),
              output = Some ''o/out_003.png''\<rparr>],
          total = 3, succeeded = 2, failed = 1\<rparr> ! 1)"
    by (elim conjE) (drule spec[of _ 1], simp)
  then show ?thesis using inv
    by (simp add: flaky_batch numeral_3_eq_3)
qed

subsection \<open>Output paths\<close>

lemma split_sep_no_sep: "CHR ''/'' \<notin> set s \<Longrightarrow> split_sep s = [s]"
  by (induction s) auto

lemma split_sep_nonempty: "split_sep s \<noteq> []"
  by (induction s) (auto split: list.splits)

lemma split_sep_components: "w \<in> set (split_sep s) \<Longrightarrow> CHR ''/'' \<notin> set w"
proof (induction s arbitrary: w)
  case Nil
  then show ?case by simp
next
  case (Cons c cs)
  show ?case
  proof (cases "c = CHR ''/''")
    case True
    then show ?thesis using Cons by auto
  next
    case False
    obtain v vs where vs: "split_sep cs = v # vs"
      using split_sep_nonempty[of cs] by (cases "split_sep cs") auto
    then have "w = c # v \<or> w \<in> set vs" using Cons.prems False by simp
    then show ?thesis using Cons.IH[of v] Cons.IH[of w] vs False by auto
  qed
qed

lemma Path_components: "w \<in> set (tail (Path p)) \<Longrightarrow> CHR ''/'' \<notin> set w \<and> w \<noteq> []"
  by (auto simp: Path_def split: prod.splits dest: split_sep_components)

lemma path_name_no_sep: "CHR ''/'' \<notin> set (path_name (Path p))"
proof (cases "tail (Path p) = []")
  case True
  then show ?thesis by (simp add: path_name_def)
next
  case False
  then have "last (tail (Path p)) \<in> set (tail (Path p))" by simp
  then have "CHR ''/'' \<notin> set (last (tail (Path p)))" using Path_components by blast
  then show ?thesis using False by (simp add: path_name_def)
qed

lemma stem_suffix: "path_stem q @ path_suffix q = path_name q"
  by (simp add: path_stem_def path_suffix_def Let_def split: option.splits)

lemma str_nat_digits: "set (str_nat n) \<subseteq> set ''0123456789''"
proof (induction n rule: str_nat.induct)
  case (1 n)
  have d: "\<And>k. k < 10 \<Longrightarrow> ''0123456789'' ! k \<in> set ''0123456789''"
    by (rule nth_mem) simp
  show ?case
  proof (cases "n < 10")
    case True
    then show ?thesis using d[of n] by (subst str_nat.simps) simp
  next
    case False
    have "n mod 10 < 10" by simp
    then have "''0123456789'' ! (n mod 10) \<in> set ''0123456789''" by (rule d)
    then show ?thesis using False 1 by (subst str_nat.simps) simp
  qed
qed

lemma format_03d_digits: "set (format_03d n) \<subseteq> set ''0123456789''"
  using str_nat_digits[of n] by (auto simp: format_03d_def)

lemma format_03d_no_sep: "CHR ''/'' \<notin> set (format_03d n)"
  using format_03d_digits[of n] by auto

lemma numbered_name:
  assumes key: "key = path_stem (Path p) @ ''_'' @ format_03d k @ path_suffix (Path p)"
  shows "Path key = \<lparr>anchor = [], tail = [key]\<rparr>" and "\<not> startswith key ''/''"
proof -
  have "set (path_stem (Path p)) \<union> set (path_suffix (Path p)) = set (path_name (Path p))"
    using stem_suffix[of "Path p"] by (metis set_append)
  then have ns: "CHR ''/'' \<notin> set (path_stem (Path p))" "CHR ''/'' \<notin> set (path_suffix (Path p))"
    using path_name_no_sep[of p] by auto
  have nosep: "CHR ''/'' \<notin> set key"
    using ns format_03d_no_sep[of k] by (simp add: key)
  have ne: "key \<noteq> []" and nd: "key \<noteq> ''.''"
    by (auto simp: key append_eq_Cons_conv)
  have first: "take 1 key \<noteq> ''/''"
  proof
    assume "take 1 key = ''/''"
    then have "CHR ''/'' \<in> set (take 1 key)" by simp
    then show False using nosep by (auto dest: in_set_takeD)
  qed
  then show "Path key = \<lparr>anchor = [], tail = [key]\<rparr>"
    using nosep ne nd by (simp add: Path_def splitroot_def split_sep_no_sep)
  show "\<not> startswith key ''/''"
    using first by (cases key) auto
qed

lemma str_nat_small: "n < 10 \<Longrightarrow> str_nat n = [''0123456789'' ! n]"
  by (subst str_nat.simps) simp

lemma str_nat_large:
  "\<not> n < 10 \<Longrightarrow> str_nat n = str_nat (n div 10) @ [''0123456789'' ! (n mod 10)]"
  by (subst str_nat.simps) simp

lemma length_str_nat_le: "0 < k \<Longrightarrow> n < 10 ^ k \<Longrightarrow> length (str_nat n) \<le> k"
proof (induction k arbitrary: n)
  case 0
  then show ?case by simp
next
  case (Suc j)
  show ?case
  proof (cases "n < 10")
    case True
    then show ?thesis by (simp add: str_nat_small)
  next
    case False
    then have j: "0 < j" using Suc.prems by (cases j) auto
    have "n div 10 < 10 ^ j" using Suc.prems by (simp add: less_mult_imp_div_less mult.commute)
    then have "length (str_nat (n div 10)) \<le> j" using Suc.IH j by blast
    then show ?thesis using False by (simp add: str_nat_large)
  qed
qed

lemma length_str_nat_gt: "10 ^ k \<le> n \<Longrightarrow> k < length (str_nat n)"
proof (induction k arbitrary: n)
  case 0
  then show ?case by (cases "n < 10") (simp_all add: str_nat_small str_nat_large)
next
  case (Suc j)
  have "(10::nat) \<le> 10 * 10 ^ j" by simp
  moreover have "10 * 10 ^ j \<le> n" using Suc.prems by simp
  ultimately have "10 \<le> n" by (rule order_trans)
  then have big: "\<not> n < 10" by simp
  have "10 ^ j \<le> n div 10" using Suc.prems by (simp add: less_eq_div_iff_mult_less_eq mult.commute)
  then have "j < length (str_nat (n div 10))" by (rule Suc.IH)
  then show ?case using big by (simp add: str_nat_large)
qed

lemma length_format_03d:
  "(n < 1000 \<longrightarrow> length (format_03d n) = 3)
   \<and> (1000 \<le> n \<longrightarrow> format_03d n = str_nat n \<and> 3 < length (format_03d n))"
proof (intro conjI impI)
  assume "n < 1000"
  then have "length (str_nat n) \<le> 3" using length_str_nat_le[of 3 n] by simp
  then show "length (format_03d n) = 3" by (simp add: format_03d_def)
next
  assume "1000 \<le> n"
  then have l: "3 < length (str_nat n)" using length_str_nat_gt[of 3 n] by simp
  then show "format_03d n = str_nat n" by (simp add: format_03d_def)
  then show "3 < length (format_03d n)" using l by simp
qed

lemma digit_value_nth: "k < 10 \<Longrightarrow> digit_value (''0123456789'' ! k) = k"
proof -
  assume "k < 10"
  then have "k \<in> {0, 1, 2, 3, 4, 5, 6, 7, 8, 9}" by auto
  then show ?thesis by (auto simp: digit_value_def)
qed

lemma decimal_value_append:
  "decimal_value (s @ [c]) = 10 * decimal_value s + digit_value c"
  by (simp add: decimal_value_def)

lemma decimal_value_str_nat: "decimal_value (str_nat n) = n"
proof (induction n rule: str_nat.induct)
  case (1 n)
  show ?case
  proof (cases "n < 10")
    case True
    then show ?thesis by (simp add: str_nat_small decimal_value_def digit_value_nth)
  next
    case False
    then have "decimal_value (str_nat (n div 10)) = n div 10" using 1 by simp
    then show ?thesis using False
      by (simp add: str_nat_large decimal_value_append digit_value_nth)
  qed
qed

lemma decimal_value_zeros:
  "foldl (\<lambda>v c. 10 * v + digit_value c) 0 (replicate k CHR ''0'') = 0"
  by (induction k) (simp_all add: digit_value_def)

lemma decimal_value_format_03d: "decimal_value (format_03d n) = n"
  using decimal_value_str_nat[of n]
  by (simp add: format_03d_def decimal_value_def decimal_value_zeros)

text \<open>
  Claim C9, as amended. With exactly one prompt the output path of the item is
  \<^verbatim>\<open>Path(output_path)\<close>, with nothing inserted. With more than one prompt the path of the
  item at position \<open>i\<close> (from 0; the claim counts from 1) has the parent of the given
  path and the name \<^verbatim>\<open>stem_NUMBER suffix\<close> without the space, where stem and suffix split
  the given name and the number is \<open>i + 1\<close> in decimal digits, padded with zeros to at
  least three digits: three digits up to 999, and all the digits of the number from
  1000 on.
\<close>

theorem item_out_path_numbering:
  "(n = 1 \<longrightarrow> item_out_path (Path output_path) n i = Path output_path)
   \<and> (1 < n \<longrightarrow>
        item_out_path (Path output_path) n i =
          \<lparr>anchor = anchor (Path output_path),
           tail = butlast (tail (Path output_path))
                  @ [path_stem (Path output_path) @ ''_'' @ format_03d (i + 1)
                     @ path_suffix (Path output_path)]\<rparr>)
   \<and> path_stem (Path output_path) @ path_suffix (Path output_path) =
       path_name (Path output_path)
   \<and> decimal_value (format_03d (i + 1)) = i + 1
   \<and> set (format_03d (i + 1)) \<subseteq> set ''0123456789''
   \<and> (i + 1 < 1000 \<longrightarrow> length (format_03d (i + 1)) = 3)
   \<and> (1000 \<le> i + 1 \<longrightarrow> 3 < length (format_03d (i + 1)))"
proof (intro conjI impI)
  assume "n = 1"
  then show "item_out_path (Path output_path) n i = Path output_path"
    by (simp add: item_out_path_def)
next
  assume n: "1 < n"
  let ?key = "path_stem (Path output_path) @ ''_'' @ format_03d (i + 1)
                @ path_suffix (Path output_path)"
  have k: "Path ?key = \<lparr>anchor = [], tail = [?key]\<rparr>" "\<not> startswith ?key ''/''"
    by (rule numbered_name[OF refl])+
  have "path_join (path_parent (Path output_path)) ?key =
      \<lparr>anchor = anchor (Path output_path), tail = butlast (tail (Path output_path)) @ [?key]\<rparr>"
    unfolding path_join_def using k by (simp add: path_parent_def)
  then show "item_out_path (Path output_path) n i =
      \<lparr>anchor = anchor (Path output_path), tail = butlast (tail (Path output_path)) @ [?key]\<rparr>"
    using n by (simp add: item_out_path_def)
next
  show "path_stem (Path output_path) @ path_suffix (Path output_path) =
       path_name (Path output_path)" by (rule stem_suffix)
next
  show "decimal_value (format_03d (i + 1)) = i + 1" by (rule decimal_value_format_03d)
next
  show "set (format_03d (i + 1)) \<subseteq> set ''0123456789''" by (rule format_03d_digits)
next
  assume "i + 1 < 1000"
  then show "length (format_03d (i + 1)) = 3" using length_format_03d[of "i + 1"] by blast
next
  assume "1000 \<le> i + 1"
  then show "3 < length (format_03d (i + 1))" using length_format_03d[of "i + 1"] by blast
qed

theorem item_out_path_numbering_witness:
  "item_out_path (Path ''o/out.png'') 1 0 = Path ''o/out.png''
   \<and> path_str (item_out_path (Path ''o/out.png'') 1 0) = ''o/out.png''
   \<and> path_str (item_out_path (Path ''o/out.png'') 3 1) = ''o/out_002.png''
   \<and> length (format_03d 2) = 3"
  using item_out_path_numbering[of 1 "''o/out.png''" 0]
    item_out_path_numbering[of 3 "''o/out.png''" 1]
  by (simp add: out_path_examples path_str_def path_eval format_03d_examples format_03d_Suc)

text \<open>The claim as stated promises a number of three digits for every item; the
  thousandth item of a batch gets four.\<close>

theorem three_digit_numbering_counterexample:
  "path_str (item_out_path (Path ''out.png'') 1000 999) = ''out_1000.png''
   \<and> format_03d (999 + 1) = ''1000'' \<and> length (format_03d (999 + 1)) = 4"
  by (simp add: item_out_path_def path_eval format_03d_examples)

subsection \<open>Absent shared inputs\<close>












subsection \<open>What a failed item keeps\<close>

lemma failed_item_detail:
  assumes cred: "getenv P ''GEMINI_API_KEY'' = Some key" "key \<noteq> []"
    and ret: "generate_image P prompts output_path style_path edit_path ref_paths aspect_ratio
                model max_retries h = (Returns b, h')"
    and i: "i < length prompts" and failed: "\<not> success (results b ! i)"
  shows "error (results b ! i) \<noteq> None
       \<and> error_code (results b ! i) \<in> {INVALID_INPUT, API_ERROR, RATE_LIMITED, NETWORK_ERROR}
       \<and> (prompt (results b ! i) = None \<longleftrightarrow> wrapper_failure (results b ! i))"
proof -
  from generate_image_returns[OF cred ret] obtain acc tr where
    b: "b = aggregate acc (length prompts) tr"
    and m: "\<forall>i < length prompts.
              item_matches (Path output_path) (length prompts) i (prompts ! i) (acc ! i)"
    by blast
  have r: "results b = acc" unfolding b by (simp add: aggregate_def Let_def)
  let ?x = "acc ! i"
  have im: "item_matches (Path output_path) (length prompts) i (prompts ! i) ?x"
    using m i by blast
  have f: "\<not> success ?x" using failed r by simp
  show ?thesis
  proof (cases "sanitize_prompt (prompts ! i)")
    case (Raises e)
    then have "?x = invalid_input_result (prompts ! i) e" using im by (simp add: item_matches_def)
    then show ?thesis unfolding r
      by (simp add: invalid_input_result_def wrapper_failure_def)
  next
    case (Exits c)
    then show ?thesis using im by (simp add: item_matches_def)
  next
    case (Returns sp)
    then consider k where "?x = (success_result sp (item_out_path (Path output_path)
                                     (length prompts) i))\<lparr>retries_used := Some k\<rparr>"
      | k where "?x = (no_image_result sp)\<lparr>retries_used := Some k\<rparr>"
      | "wrapper_failure ?x"
      using im by (auto simp: item_matches_def)
    then show ?thesis
    proof cases
      case 1
      then show ?thesis using f by (simp add: success_result_def)
    next
      case 2
      then show ?thesis unfolding r by (simp add: no_image_result_def wrapper_failure_def)
    next
      case 3
      then show ?thesis unfolding r by (auto simp: wrapper_failure_def)
    qed
  qed
qed

text \<open>
  Claim C5 asks that the prompt, the error code and the message of every failed item can
  be recovered from the returned dictionary. The code and the message are always there
  (\<open>failed_item_detail\<close>). The prompt is not: the two dictionaries the retry wrapper builds
  itself have no key \<^verbatim>\<open>prompt\<close>. With a service that answers \<^verbatim>\<open>HTTP 500\<close>, the batch of the
  one prompt \<^verbatim>\<open>a cat\<close> returns a failed item without a prompt, and the batch of the one
  prompt \<^verbatim>\<open>a dog\<close> returns the very same dictionary.
\<close>

theorem failed_item_without_prompt:
  "generate_image failing_service [''a cat''] ''out.png'' None None None ''1:1'' ''m'' 3 [] =
     (Returns
       \<lparr>success = False, error_code = PARTIAL_FAILURE, error = None, retries_used = Some 0,
        results = [\<lparr>success = False, error_code = API_ERROR, error = Some ''HTTP 500'',
                    retries_used = Some 0, prompt = None, output = None\<rparr>],
        total = 1, succeeded = 0, failed = 1\<rparr>,
      [GetEnv ''GEMINI_API_KEY'',
       GenerateContent \<lparr>req_client = ''key'', req_model = ''m'',
                        req_contents = [Text ''a cat''], req_aspect_ratio = ''1:1''\<rparr>])
   \<and> fst (generate_image failing_service [''a dog''] ''out.png'' None None None ''1:1'' ''m'' 3
            []) =
     fst (generate_image failing_service [''a cat''] ''out.png'' None None None ''1:1'' ''m'' 3
            [])"
proof -
  have s: "sanitize_prompt ''a cat'' = Returns ''a cat''"
    "sanitize_prompt ''a dog'' = Returns ''a dog''"
    by (simp_all add: sanitize_prompt_def strip_def isspace_def whitespace_def
        search_dangerous_def SHELL_DANGEROUS_CHARS_def)
  show ?thesis
    by (simp add: generate_image_def load_shared_def failing_service_def s
        item_out_path_def retry_first_attempt DEFAULT_MAX_RETRIES_def
        generate_single_image_def build_request_def not_retryable_HTTP_500 aggregate_def
        Let_def)
qed

subsection \<open>The batch returns\<close>

lemma extract_image_no_exit:
  "never_exits P \<Longrightarrow> extract_image P sp out parts h \<noteq> (Exits c, h')"
proof (induction parts arbitrary: h)
  case Nil
  then show ?case by simp
next
  case (Cons part rest)
  show ?case
  proof (cases "inline_data part")
    case None
    then show ?thesis using Cons by simp
  next
    case (Some d)
    then show ?thesis using Cons.prems
      by (auto simp: never_exits_def Let_def split: outcome.splits)
  qed
qed

lemma generate_single_image_no_exit:
  "never_exits P \<Longrightarrow>
   generate_single_image P client sp out style_text edit_part ref_parts aspect_ratio model h
     \<noteq> (Exits c, h')"
  using extract_image_no_exit[of P sp out]
  by (auto simp: generate_single_image_def Let_def never_exits_def
      split: outcome.splits list.splits option.splits)

lemma wrapper_loop_returns:
  assumes ne: "\<And>h c h'. func h \<noteq> (Exits c, h')"
  shows "attempts \<noteq> [] \<or> le \<noteq> None \<Longrightarrow>
         \<exists>r c' h'. wrapper_loop func N attempts le retries calls h = (Returns r, c', h')"
proof (induction attempts arbitrary: le retries calls h)
  case Nil
  then show ?case by (cases le) auto
next
  case (Cons a rest)
  obtain oc h1 where f: "func h = (oc, h1)" by (cases "func h")
  show ?case
  proof (cases oc)
    case (Returns r0)
    then show ?thesis using f by simp
  next
    case (Exits c)
    then show ?thesis using f ne by blast
  next
    case (Raises e)
    show ?thesis
    proof (cases "is_retryable_error e")
      case False
      then show ?thesis using f Raises by simp
    next
      case True
      have "\<And>r c. \<exists>r' c' h'. wrapper_loop func N rest (Some e) r c
                (h1 @ [Sleep (calculate_backoff a 1.0 60.0)]) = (Returns r', c', h')"
        "\<And>r c. \<exists>r' c' h'. wrapper_loop func N rest (Some e) r c h1 = (Returns r', c', h')"
        by (rule Cons.IH, simp)+
      then show ?thesis using f Raises True by simp
    qed
  qed
qed

lemma retry_returns:
  assumes "never_exits P"
  shows "\<exists>r c' h'. retry_with_backoff
                      (generate_single_image P client sp out style_text edit_part ref_parts
                         aspect_ratio model) DEFAULT_MAX_RETRIES h = (Returns r, c', h')"
proof -
  have "py_range (DEFAULT_MAX_RETRIES + 1) \<noteq> []"
    by (simp add: DEFAULT_MAX_RETRIES_def py_range_def)
  then show ?thesis unfolding retry_with_backoff_def
    using generate_single_image_no_exit[OF assms]
    by (intro wrapper_loop_returns) auto
qed

lemma sanitize_prompt_no_exit: "sanitize_prompt p \<noteq> Exits c"
  by (simp add: sanitize_prompt_def)

lemma process_prompts_returns:
  assumes "never_exits P"
  shows "\<exists>acc' tr' h'. process_prompts P S i ps acc tr h = (Returns (acc', tr'), h')"
proof (induction ps arbitrary: i acc tr h)
  case Nil
  then show ?case by simp
next
  case (Cons p rest)
  show ?case
  proof (cases "sanitize_prompt p")
    case (Raises e)
    then show ?thesis using Cons.IH by simp
  next
    case (Exits c)
    then show ?thesis using sanitize_prompt_no_exit by blast
  next
    case (Returns sp)
    let ?out = "item_out_path (sh_output_base S) (sh_len_prompts S) i"
    obtain r c' h1 where
      "retry_with_backoff
         (generate_single_image P (sh_client S) sp ?out (sh_style_text S) (sh_edit_part S)
            (sh_ref_parts S) (sh_aspect_ratio S) (sh_model S))
         DEFAULT_MAX_RETRIES h = (Returns r, c', h1)"
      using retry_returns[OF assms] by blast
    then show ?thesis using Returns Cons.IH by (simp add: Let_def)
  qed
qed

lemma generate_image_total:
  assumes cred: "getenv P ''GEMINI_API_KEY'' = Some key" "key \<noteq> []"
    and ne: "never_exits P"
    and ls: "load_shared P style_path edit_path ref_paths (h @ [GetEnv ''GEMINI_API_KEY'']) =
               (Returns v, h1)"
  shows "\<exists>b h'. generate_image P prompts output_path style_path edit_path ref_paths
                   aspect_ratio model max_retries h = (Returns b, h')"
proof -
  obtain style_text ref_parts edit_part where v: "v = (style_text, ref_parts, edit_part)"
    by (cases v)
  let ?S = "\<lparr>sh_client = key, sh_style_text = style_text, sh_edit_part = edit_part,
             sh_ref_parts = ref_parts, sh_aspect_ratio = aspect_ratio, sh_model = model,
             sh_output_base = Path output_path, sh_len_prompts = length prompts\<rparr>"
  from process_prompts_returns[OF ne, of ?S 0 prompts "[]" 0 h1]
  obtain acc' tr' h' where "process_prompts P ?S 0 prompts [] 0 h1 = (Returns (acc', tr'), h')"
    by blast
  then show ?thesis using cred ls v by (simp add: generate_image_def Let_def)
qed

end
